theory Spec2Isabelle
  imports Main
begin

section \<open>Documents and Python values\<close>

text \<open>
  A document is a mapping from string keys to values; a value is a scalar or again a
  mapping.  A Python \<^verbatim>\<open>dict\<close> keeps its keys in insertion order, so a mapping is an
  association list: \<^verbatim>\<open>for key, value in src.items()\<close> walks it front to back.
  Scalars are \<^verbatim>\<open>None\<close>, integers and strings.
\<close>

datatype val = VNone | VInt int | VStr string | VDict "(string \<times> val) list"

type_synonym dict = "(string \<times> val) list"

text \<open>
  Python's \<^verbatim>\<open>==\<close>: two mappings are equal when they have the same number of keys and
  every key of the left one is bound to an equal value in the right one, whatever the
  insertion order.
\<close>

fun py_eq :: "val \<Rightarrow> val \<Rightarrow> bool" where
  "py_eq VNone VNone = True"
| "py_eq (VInt a) (VInt b) = (a = b)"
| "py_eq (VStr a) (VStr b) = (a = b)"
| "py_eq (VDict xs) (VDict ys) =
     (length xs = length ys \<and>
      list_all (\<lambda>kv. case map_of ys (fst kv) of None \<Rightarrow> False
                                               | Some w \<Rightarrow> py_eq (snd kv) w) xs)"
| "py_eq _ _ = False"

text \<open>\<^verbatim>\<open>d[k] = v\<close>: an existing key keeps its place, a new key goes to the end.\<close>

fun dict_set :: "(string \<times> 'v) list \<Rightarrow> string \<Rightarrow> 'v \<Rightarrow> (string \<times> 'v) list" where
  "dict_set [] k v = [(k, v)]"
| "dict_set ((k', v') # d) k v =
     (if k' = k then (k, v) # d else (k', v') # dict_set d k v)"

datatype error =
    TypeError
  | ValueError
  | RuntimeError
  | FileNotFoundError
  | AssertionError
  | DestinationExistsError
  | DocumentSyncConflict "string set"
  | FileSyncConflict string
  | SchemaSyncConflict

section \<open>\<^verbatim>\<open>_DocProxy\<close>\<close>

text \<open>
  The proxy wraps a document and a dry-run flag.  Reads (\<^verbatim>\<open>__getitem__\<close>,
  \<^verbatim>\<open>__contains__\<close>, \<^verbatim>\<open>__eq__\<close>, \<^verbatim>\<open>__len__\<close>) go straight to the
  document.  \<^verbatim>\<open>__setitem__\<close> writes only when the flag is off; \<^verbatim>\<open>clear\<close> has no
  such test; \<^verbatim>\<open>update\<close> is a loop of \<^verbatim>\<open>__setitem__\<close>.
\<close>

definition DocProxy_setitem :: "bool \<Rightarrow> dict \<Rightarrow> string \<Rightarrow> val \<Rightarrow> dict" where
  "DocProxy_setitem dry_run doc key v = (if dry_run then doc else dict_set doc key v)"

definition DocProxy_clear :: "bool \<Rightarrow> dict \<Rightarrow> dict" where
  "DocProxy_clear dry_run doc = []"

fun DocProxy_update :: "bool \<Rightarrow> dict \<Rightarrow> dict \<Rightarrow> dict" where
  "DocProxy_update dry_run doc [] = doc"
| "DocProxy_update dry_run doc ((key, v) # other) =
     DocProxy_update dry_run (DocProxy_setitem dry_run doc key v) other"

section \<open>\<^verbatim>\<open>DocSync\<close>\<close>

text \<open>\<^verbatim>\<open>DocSync.update(src, dst)\<close>: \<^verbatim>\<open>dst[key] = src[key]\<close> for every source key.\<close>

fun DocSync_update :: "bool \<Rightarrow> dict \<Rightarrow> dict \<Rightarrow> dict" where
  "DocSync_update dry_run [] dst = dst"
| "DocSync_update dry_run ((key, v) # src) dst =
     DocSync_update dry_run src (DocProxy_setitem dry_run dst key v)"

text \<open>
  A \<^verbatim>\<open>ByKey\<close> instance holds a key strategy (\<open>None\<close>, or a predicate on key paths; a
  pattern string is turned into the predicate \<^verbatim>\<open>re.match(pattern, key)\<close> by the
  constructor) and the set \<^verbatim>\<open>skipped_keys\<close>, which the constructor sets to the empty set
  and no other code resets.

  A call returns the exception raised, if any, the destination as the call left it and
  the instance's \<^verbatim>\<open>skipped_keys\<close>.
\<close>

definition isinstance_Mapping :: "val \<Rightarrow> bool" where
  "isinstance_Mapping v = (case v of VDict d \<Rightarrow> True | _ \<Rightarrow> False)"

definition items :: "val \<Rightarrow> dict" where
  "items v = (case v of VDict d \<Rightarrow> d | _ \<Rightarrow> [])"

type_synonym key_strategy = "(string \<Rightarrow> bool) option"

type_synonym doc_result = "error option \<times> val \<times> string set"

text \<open>
  The tail of \<^verbatim>\<open>__call__\<close>: with skipped keys and an empty \<^verbatim>\<open>root\<close>, raise when there
  is no strategy, log otherwise.
\<close>

definition by_key_finish :: "key_strategy \<Rightarrow> string \<Rightarrow> doc_result \<Rightarrow> doc_result" where
  "by_key_finish ks root r =
     (case r of
        (Some e, dst, sk) \<Rightarrow> (Some e, dst, sk)
      | (None, dst, sk) \<Rightarrow>
          if sk \<noteq> {} \<and> root = []
          then (case ks of
                  None \<Rightarrow> (Some (DocumentSyncConflict sk), dst, sk)
                | Some f \<Rightarrow> (None, dst, sk))
          else (None, dst, sk))"

text \<open>
  The \<^verbatim>\<open>for key, value in src.items()\<close> loop of \<^verbatim>\<open>__call__\<close>.  \<open>dry_run\<close> is the
  flag of the proxy that \<^verbatim>\<open>dst[key] = value\<close> goes through at this level.  The recursive
  call is \<^verbatim>\<open>self(src[key], dst[key], key + '.')\<close>: its destination is
  \<^verbatim>\<open>dst[key]\<close>, which the proxy's \<^verbatim>\<open>__getitem__\<close> hands out as the nested mapping
  itself, so writes at the nested level are real writes (flag \<open>False\<close>) and the parent
  sees them, whatever the parent's flag; its root is \<^verbatim>\<open>key + '.'\<close>.  The test
  \<^verbatim>\<open>isinstance(value, Mapping)\<close> looks at the source value only: when the destination
  value is not a mapping, \<^verbatim>\<open>key in dst\<close>, \<^verbatim>\<open>dst[key]\<close> or
  \<^verbatim>\<open>dst[key] = value\<close> raises \<^verbatim>\<open>TypeError\<close> at the first source key.
\<close>

function by_key_loop ::
  "key_strategy \<Rightarrow> bool \<Rightarrow> string \<Rightarrow> dict \<Rightarrow> val \<Rightarrow> string set \<Rightarrow> doc_result" where
  "by_key_loop ks dry_run root [] dst sk = (None, dst, sk)"
| "by_key_loop ks dry_run root ((key, v) # rest) dst sk =
     (case dst of
        VDict d \<Rightarrow>
          (case map_of d key of
             Some dv \<Rightarrow>
               if py_eq dv v then by_key_loop ks dry_run root rest dst sk
               else if isinstance_Mapping v then
                 (case (if py_eq v dv then (None, dv, sk)
                        else by_key_finish ks (key @ ''.'')
                               (by_key_loop ks False (key @ ''.'') (items v) dv sk)) of
                    (Some e, dv', sk') \<Rightarrow> (Some e, VDict (dict_set d key dv'), sk')
                  | (None, dv', sk') \<Rightarrow>
                      by_key_loop ks dry_run root rest (VDict (dict_set d key dv')) sk')
               else
                 (case ks of
                    None \<Rightarrow> by_key_loop ks dry_run root rest dst (insert (root @ key) sk)
                  | Some f \<Rightarrow>
                      if f (root @ key)
                      then by_key_loop ks dry_run root rest
                             (VDict (DocProxy_setitem dry_run d key v)) sk
                      else by_key_loop ks dry_run root rest dst (insert (root @ key) sk))
           | None \<Rightarrow>
               by_key_loop ks dry_run root rest (VDict (DocProxy_setitem dry_run d key v)) sk)
      | _ \<Rightarrow> (Some TypeError, dst, sk))"
  by pat_completeness auto
termination
  by (relation "measure (\<lambda>(ks, dry_run, root, src, dst, sk).
                  size_list (size_prod (\<lambda>x. 0) size) src)")
     (auto simp: isinstance_Mapping_def items_def split: val.splits)

text \<open>
  \<^verbatim>\<open>ByKey.__call__(src, dst, root)\<close>.  At the top level \<open>dst\<close> is the proxy, and
  \<^verbatim>\<open>src == dst\<close> is decided by the proxy's \<^verbatim>\<open>__eq__\<close>, which compares the
  document with \<open>src\<close>.
\<close>

definition ByKey_call ::
  "key_strategy \<Rightarrow> bool \<Rightarrow> string \<Rightarrow> val \<Rightarrow> val \<Rightarrow> string set \<Rightarrow> doc_result" where
  "ByKey_call ks dry_run root src dst sk =
     (if py_eq src dst then (None, dst, sk)
      else by_key_finish ks root (by_key_loop ks dry_run root (items src) dst sk))"

section \<open>\<^verbatim>\<open>_FileModifyProxy\<close>: files\<close>

text \<open>
  The files that the backup operations touch are a store from paths to contents; a path
  without an entry is not a regular file (\<^verbatim>\<open>os.path.isfile\<close> is false there).
  \<^verbatim>\<open>shutil.copy\<close> and \<^verbatim>\<open>os.remove\<close> raise when their source is missing.  Every
  operation of the proxy logs, and acts only when \<^verbatim>\<open>dry_run\<close> is off.
\<close>

type_synonym 'c fs = "string \<rightharpoonup> 'c"

definition isfile :: "'c fs \<Rightarrow> string \<Rightarrow> bool" where
  "isfile files path = (case files path of None \<Rightarrow> False | Some c \<Rightarrow> True)"

definition proxy_copy :: "bool \<Rightarrow> string \<Rightarrow> string \<Rightarrow> 'c fs \<Rightarrow> error option \<times> 'c fs" where
  "proxy_copy dry_run src dst files =
     (if dry_run then (None, files)
      else case files src of
             None \<Rightarrow> (Some FileNotFoundError, files)
           | Some c \<Rightarrow> (None, files(dst \<mapsto> c)))"

definition proxy_remove :: "bool \<Rightarrow> string \<Rightarrow> 'c fs \<Rightarrow> error option \<times> 'c fs" where
  "proxy_remove dry_run path files =
     (if dry_run then (None, files)
      else case files path of
             None \<Rightarrow> (Some FileNotFoundError, files)
           | Some c \<Rightarrow> (None, files(path := None)))"

text \<open>
  \<^verbatim>\<open>create_backup(path)\<close> is a context manager.  The guarded region is a function from
  the files and a state of its own to an exception (if it raises), the files and the state
  as it leaves them.  The steps are the source's: the stale-backup test, then inside
  \<^verbatim>\<open>try\<close> the copy to \<^verbatim>\<open>path + '~'\<close> and the region; \<^verbatim>\<open>except\<close> copies the
  backup over the path and re-raises (an exception of that copy replaces the first one);
  \<^verbatim>\<open>finally\<close> removes the backup (and an exception of the removal replaces any other).
\<close>

definition create_backup ::
  "bool \<Rightarrow> string \<Rightarrow> ('c fs \<times> 'a \<Rightarrow> error option \<times> 'c fs \<times> 'a) \<Rightarrow> 'c fs \<times> 'a
     \<Rightarrow> error option \<times> 'c fs \<times> 'a" where
  "create_backup dry_run path region st =
     (let path_backup = path @ ''~''; files = fst st; a = snd st in
      if isfile files path_backup then (Some RuntimeError, files, a)
      else
        let (e1, files1) = proxy_copy dry_run path path_backup files;
            (e2, files2, a2) =
               (case e1 of Some e \<Rightarrow> (Some e, files1, a) | None \<Rightarrow> region (files1, a));
            (e3, files3) =
               (case e2 of
                  None \<Rightarrow> (None, files2)
                | Some e \<Rightarrow>
                    (case proxy_copy dry_run path_backup path files2 of
                       (Some e', f) \<Rightarrow> (Some e', f)
                     | (None, f) \<Rightarrow> (Some e, f)));
            (e4, files4) = proxy_remove dry_run path_backup files3
        in (case e4 of Some e \<Rightarrow> (Some e, files4, a2) | None \<Rightarrow> (e3, files4, a2)))"

section \<open>\<^verbatim>\<open>_FileModifyProxy\<close>: documents\<close>

text \<open>
  A document object has an optional \<^verbatim>\<open>filename\<close> (a plain \<^verbatim>\<open>dict\<close> has none), the
  contents it holds in memory, and the files around it: its own file and the backup of
  that file.  A document whose file exists reads its contents from the file; every write
  goes to memory and, with a filename, to the file.
\<close>

record document =
  filename :: "string option"
  data :: dict
  disk :: "dict fs"

definition doc_contents :: "document \<Rightarrow> dict" where
  "doc_contents doc =
     (case filename doc of
        None \<Rightarrow> data doc
      | Some fn \<Rightarrow> (case disk doc fn of None \<Rightarrow> data doc | Some d \<Rightarrow> d))"

definition doc_store :: "document \<Rightarrow> dict \<Rightarrow> document" where
  "doc_store doc d =
     (if d = doc_contents doc then doc
      else case filename doc of
             None \<Rightarrow> doc\<lparr>data := d\<rparr>
           | Some fn \<Rightarrow> doc\<lparr>data := d, disk := (disk doc)(fn \<mapsto> d)\<rparr>)"

text \<open>
  \<^verbatim>\<open>create_doc_backup(doc)\<close>.  The guarded region receives the proxy (its flag and the
  document's contents) and a state of its own (the \<^verbatim>\<open>ByKey\<close> instance's skipped keys),
  and returns the exception it raises, if any, with the contents and the state it leaves.
  With an empty document, no filename or no file (\<open>in_memory_backup\<close>, the source's
  \<^verbatim>\<open>not len(proxy) or fn is None or not os.path.isfile(fn)\<close>), the backup is a deep copy
  in memory and the roll-back is \<^verbatim>\<open>proxy.clear(); proxy.update(backup)\<close>; otherwise the region runs
  inside \<^verbatim>\<open>create_backup(fn)\<close>.
\<close>

definition in_memory_backup :: "document \<Rightarrow> bool" where
  "in_memory_backup doc =
     (if length (doc_contents doc) = 0 then True
      else case filename doc of
             None \<Rightarrow> True
           | Some fn \<Rightarrow> (if isfile (disk doc) fn then False else True))"

definition create_doc_backup ::
  "bool \<Rightarrow> document \<Rightarrow> (bool \<Rightarrow> dict \<Rightarrow> 'a \<Rightarrow> error option \<times> dict \<times> 'a) \<Rightarrow> 'a
     \<Rightarrow> error option \<times> document \<times> 'a" where
  "create_doc_backup dry_run doc region a =
     (case (if in_memory_backup doc then None else filename doc) of
        None \<Rightarrow>
          (let backup = doc_contents doc;
               (e, d', a') = region dry_run (doc_contents doc) a;
               doc' = doc_store doc d'
           in (case e of
                 None \<Rightarrow> (None, doc', a')
               | Some err \<Rightarrow>
                   (Some err,
                    doc_store doc'
                      (DocProxy_update dry_run (DocProxy_clear dry_run (doc_contents doc')) backup),
                    a')))
      | Some fn \<Rightarrow>
          (let (e, files', a') =
                 create_backup dry_run fn
                   (\<lambda>(files, s).
                      let d = (case files fn of None \<Rightarrow> data doc | Some c \<Rightarrow> c);
                          (e, d', s') = region dry_run d s
                      in (e, if d' = d then files else files(fn \<mapsto> d'), s'))
                   (disk doc, a)
           in (e, doc\<lparr>disk := files'\<rparr>, a')))"

section \<open>Workspaces and \<^verbatim>\<open>filecmp.dircmp\<close>\<close>

text \<open>
  A workspace is a directory tree.  A regular file has its bytes and its modification
  time (its size is the length of the bytes); a directory has its entries in the order
  of its listing, which \<^verbatim>\<open>dircmp\<close> sorts by name.
\<close>

datatype node = File string nat | Dir "(string \<times> node) list"

type_synonym dir = "(string \<times> node) list"

text \<open>
  \<^verbatim>\<open>dircmp(a, b)\<close> of the standard library, as far as \<^verbatim>\<open>_sync_job_workspaces\<close>
  reads it: the listings without the names it ignores by default, \<^verbatim>\<open>left_only\<close>,
  the common names split into directories and regular files, and \<^verbatim>\<open>diff_files\<close>.
  \<^verbatim>\<open>filecmp.cmp\<close> with \<^verbatim>\<open>shallow\<close> takes two files with the same size and
  modification time for equal without reading them; \<^verbatim>\<open>dircmp\<close> is shallow,
  \<^verbatim>\<open>dircmp_deep\<close> (the \<^verbatim>\<open>deep\<close> flag) is not.
\<close>

definition DEFAULT_IGNORES :: "string list" where
  "DEFAULT_IGNORES =
     [''RCS'', ''CVS'', ''tags'', ''.git'', ''.hg'', ''.bzr'', ''_darcs'', ''__pycache__'']"

definition listing :: "dir \<Rightarrow> string list" where
  "listing d = filter (\<lambda>n. n \<notin> set DEFAULT_IGNORES) (map fst d)"

definition left_only :: "dir \<Rightarrow> dir \<Rightarrow> string list" where
  "left_only src dst = filter (\<lambda>n. n \<notin> set (listing dst)) (listing src)"

definition common :: "dir \<Rightarrow> dir \<Rightarrow> string list" where
  "common src dst = filter (\<lambda>n. n \<in> set (listing dst)) (listing src)"

definition isdir_in :: "dir \<Rightarrow> string \<Rightarrow> bool" where
  "isdir_in d n = (case map_of d n of Some (Dir t) \<Rightarrow> True | _ \<Rightarrow> False)"

definition isfile_in :: "dir \<Rightarrow> string \<Rightarrow> bool" where
  "isfile_in d n = (case map_of d n of Some (File c m) \<Rightarrow> True | _ \<Rightarrow> False)"

definition common_dirs :: "dir \<Rightarrow> dir \<Rightarrow> string list" where
  "common_dirs src dst = filter (\<lambda>n. isdir_in src n \<and> isdir_in dst n) (common src dst)"

definition common_files :: "dir \<Rightarrow> dir \<Rightarrow> string list" where
  "common_files src dst = filter (\<lambda>n. isfile_in src n \<and> isfile_in dst n) (common src dst)"

fun filecmp_cmp :: "bool \<Rightarrow> node \<Rightarrow> node \<Rightarrow> bool" where
  "filecmp_cmp shallow (File c1 m1) (File c2 m2) =
     (if shallow \<and> length c1 = length c2 \<and> m1 = m2 then True
      else if length c1 = length c2 then c1 = c2
      else False)"
| "filecmp_cmp shallow a b = False"

definition differs :: "bool \<Rightarrow> dir \<Rightarrow> dir \<Rightarrow> string \<Rightarrow> bool" where
  "differs deep src dst n =
     (case (map_of src n, map_of dst n) of
        (Some a, Some b) \<Rightarrow> (if filecmp_cmp (if deep then False else True) a b then False else True)
      | _ \<Rightarrow> False)"

definition diff_files :: "bool \<Rightarrow> dir \<Rightarrow> dir \<Rightarrow> string list" where
  "diff_files deep src dst = filter (differs deep src dst) (common_files src dst)"

section \<open>File strategies and \<^verbatim>\<open>_sync_job_workspaces\<close>\<close>

text \<open>
  A strategy is called with the two jobs and the path of the differing file relative to
  the workspace.  \<^verbatim>\<open>always\<close> and \<^verbatim>\<open>never\<close> ignore their arguments,
  \<^verbatim>\<open>update\<close> compares the modification times of the two files at that path, and
  \<^verbatim>\<open>Ask\<close> puts the question to the user once for each name and keeps the answer,
  which makes its decision a function of the name.
\<close>

datatype file_strategy =
    FileSync_always
  | FileSync_never
  | FileSync_update
  | FileSync_Ask "string \<Rightarrow> bool"

definition getmtime :: "node \<Rightarrow> nat" where
  "getmtime f = (case f of File c m \<Rightarrow> m | Dir t \<Rightarrow> 0)"

fun strategy_call :: "file_strategy \<Rightarrow> node \<Rightarrow> node \<Rightarrow> string \<Rightarrow> bool" where
  "strategy_call FileSync_always src_file dst_file fn = True"
| "strategy_call FileSync_never src_file dst_file fn = False"
| "strategy_call FileSync_update src_file dst_file fn = (getmtime src_file > getmtime dst_file)"
| "strategy_call (FileSync_Ask answer) src_file dst_file fn = answer fn"

text \<open>\<^verbatim>\<open>os.path.join(subdir, fn)\<close> for relative paths.\<close>

definition path_join :: "string \<Rightarrow> string \<Rightarrow> string" where
  "path_join subdir fn = (if subdir = [] then fn else subdir @ ''/'' @ fn)"

text \<open>
  \<^verbatim>\<open>exclude and any([re.match(p, fn) for p in exclude])\<close>.  The regular-expression
  matcher \<^verbatim>\<open>re.match\<close> of the standard library is the parameter \<open>re_match\<close>: pattern,
  then name.
\<close>

type_synonym matcher = "string \<Rightarrow> string \<Rightarrow> bool"

definition excluded :: "matcher \<Rightarrow> string list \<Rightarrow> string \<Rightarrow> bool" where
  "excluded re_match exclude fn = (exclude \<noteq> [] \<and> list_ex (\<lambda>p. re_match p fn) exclude)"

text \<open>
  A matcher for the examples: \<open>p\<close> is a prefix of \<open>fn\<close>, which is what
  \<^verbatim>\<open>re.match(p, fn)\<close> tests for a pattern without metacharacters.  On the patterns
  and the names of the examples below, where the only metacharacter is the dot of the two
  file names of a job, the prefix test and \<^verbatim>\<open>re.match\<close> agree.
\<close>

definition literal_match :: matcher where
  "literal_match p fn = (take (length p) fn = p)"

text \<open>
  The three loops of \<^verbatim>\<open>_sync_job_workspaces\<close>.  \<^verbatim>\<open>proxy.copy\<close> is
  \<^verbatim>\<open>shutil.copy\<close> (the copy has the bytes of the source and the time of the copy,
  \<open>now\<close>); \<^verbatim>\<open>proxy.copytree\<close> is \<^verbatim>\<open>shutil.copytree\<close> (the whole tree, with its
  modification times); neither acts in a dry run.
\<close>

fun sync_left_only ::
  "matcher \<Rightarrow> string list \<Rightarrow> bool \<Rightarrow> nat \<Rightarrow> string list \<Rightarrow> dir \<Rightarrow> dir \<Rightarrow> dir" where
  "sync_left_only re_match exclude dry_run now [] src dst = dst"
| "sync_left_only re_match exclude dry_run now (fn # fns) src dst =
     (if excluded re_match exclude fn
      then sync_left_only re_match exclude dry_run now fns src dst
      else
        (case map_of src fn of
           Some (File c m) \<Rightarrow>
             sync_left_only re_match exclude dry_run now fns src
               (if dry_run then dst else dict_set dst fn (File c now))
         | Some (Dir t) \<Rightarrow>
             sync_left_only re_match exclude dry_run now fns src
               (if dry_run then dst else dict_set dst fn (Dir t))
         | None \<Rightarrow> sync_left_only re_match exclude dry_run now fns src dst))"

fun sync_diff_files ::
  "matcher \<Rightarrow> file_strategy option \<Rightarrow> string list \<Rightarrow> bool \<Rightarrow> nat \<Rightarrow> string \<Rightarrow> string list
     \<Rightarrow> dir \<Rightarrow> dir \<Rightarrow> error option \<times> dir" where
  "sync_diff_files re_match strategy exclude dry_run now subdir [] src dst = (None, dst)"
| "sync_diff_files re_match strategy exclude dry_run now subdir (fn # fns) src dst =
     (if excluded re_match exclude fn
      then sync_diff_files re_match strategy exclude dry_run now subdir fns src dst
      else
        (case strategy of
           None \<Rightarrow> (Some (FileSyncConflict fn), dst)
         | Some st \<Rightarrow>
             (case (map_of src fn, map_of dst fn) of
                (Some (File c m), Some dst_file) \<Rightarrow>
                  if strategy_call st (File c m) dst_file (path_join subdir fn)
                  then sync_diff_files re_match strategy exclude dry_run now subdir fns src
                         (if dry_run then dst else dict_set dst fn (File c now))
                  else sync_diff_files re_match strategy exclude dry_run now subdir fns src dst
              | _ \<Rightarrow> sync_diff_files re_match strategy exclude dry_run now subdir fns src dst)))"

text \<open>
  \<^verbatim>\<open>_sync_job_workspaces(src, dst, strategy, exclude, proxy, subdir, deep)\<close> on the
  entries of the two directories at \<open>subdir\<close>; it returns the exception raised, if
  any, and the destination directory as the walk left it.  The last loop,
  \<^verbatim>\<open>for _subdir in diff.subdirs\<close>, calls the function again for each common
  subdirectory, in the order of the source listing.
\<close>

function sync_job_workspaces ::
  "matcher \<Rightarrow> file_strategy option \<Rightarrow> string list \<Rightarrow> bool \<Rightarrow> nat \<Rightarrow> bool \<Rightarrow> string
     \<Rightarrow> dir \<Rightarrow> dir \<Rightarrow> error option \<times> dir"
and sync_subdirs ::
  "matcher \<Rightarrow> file_strategy option \<Rightarrow> string list \<Rightarrow> bool \<Rightarrow> nat \<Rightarrow> bool \<Rightarrow> string
     \<Rightarrow> string list \<Rightarrow> dir \<Rightarrow> dir \<Rightarrow> error option \<times> dir"
where
  "sync_job_workspaces re_match strategy exclude dry_run now deep subdir src dst =
     (case sync_diff_files re_match strategy exclude dry_run now subdir
             (diff_files deep src dst) src
             (sync_left_only re_match exclude dry_run now (left_only src dst) src dst) of
        (Some e, dst') \<Rightarrow> (Some e, dst')
      | (None, dst') \<Rightarrow>
          sync_subdirs re_match strategy exclude dry_run now deep subdir
            (common_dirs src dst) src dst')"
| "sync_subdirs re_match strategy exclude dry_run now deep subdir subdirs [] dst = (None, dst)"
| "sync_subdirs re_match strategy exclude dry_run now deep subdir subdirs ((n, nd) # rest) dst =
     (if n \<in> set subdirs
      then
        (case (nd, map_of dst n) of
           (Dir s, Some (Dir d)) \<Rightarrow>
             (case sync_job_workspaces re_match strategy exclude dry_run now deep
                     (path_join subdir n) s d of
                (Some e, d') \<Rightarrow> (Some e, dict_set dst n (Dir d'))
              | (None, d') \<Rightarrow>
                  sync_subdirs re_match strategy exclude dry_run now deep subdir subdirs rest
                    (dict_set dst n (Dir d')))
         | _ \<Rightarrow>
             sync_subdirs re_match strategy exclude dry_run now deep subdir subdirs rest dst)
      else sync_subdirs re_match strategy exclude dry_run now deep subdir subdirs rest dst)"
  by pat_completeness auto
termination
  by (relation "measure (\<lambda>x. case x of
          Inl (re_match, strategy, exclude, dry_run, now, deep, subdir, src, dst) \<Rightarrow>
            2 * size_list (size_prod (\<lambda>x. 0) size) src + 1
        | Inr (re_match, strategy, exclude, dry_run, now, deep, subdir, subdirs, src, dst) \<Rightarrow>
            2 * size_list (size_prod (\<lambda>x. 0) size) src)")
     auto

section \<open>\<^verbatim>\<open>sync_jobs\<close>\<close>

text \<open>
  The document synchronization functions of \<^verbatim>\<open>DocSync\<close>; \<^verbatim>\<open>doc_sync(src, dst)\<close>
  is called with the source document and the proxy of the destination document.
  \<^verbatim>\<open>DocSync.COPY\<close>, under which the source leaves the document's file name out of
  \<^verbatim>\<open>exclude\<close> and the document file is synchronized as one of the workspace files,
  is not among the values of \<open>doc_sync\<close> here: the workspace tree of a job does not hold
  the document file (see \<open>job\<close> below), so the calls that this theory describes are
  those with \<^verbatim>\<open>NO_SYNC\<close>, \<^verbatim>\<open>update\<close> or a \<^verbatim>\<open>ByKey\<close> instance.
\<close>

datatype doc_sync = NO_SYNC | Update | ByKey key_strategy

definition doc_sync_call ::
  "doc_sync \<Rightarrow> dict \<Rightarrow> bool \<Rightarrow> dict \<Rightarrow> string set \<Rightarrow> error option \<times> dict \<times> string set" where
  "doc_sync_call ds src dry_run dst sk =
     (case ds of
        ByKey ks \<Rightarrow>
          (case ByKey_call ks dry_run [] (VDict src) (VDict dst) sk of
             (e, dst', sk') \<Rightarrow> (e, items dst', sk'))
      | Update \<Rightarrow> (None, DocSync_update dry_run src dst, sk)
      | NO_SYNC \<Rightarrow> (None, dst, sk))"

text \<open>
  What \<^verbatim>\<open>sync_jobs\<close> reads of a job: its workspace path, whether it is in its
  project, the two file names, the workspace directory (\<open>None\<close> when there is no such
  directory) and the document.  The document's file and the backup of that file are in
  the document's own store, the other files in the workspace tree.
\<close>

record job =
  job_id :: string
  workspace_path :: string
  in_project :: bool
  FN_MANIFEST :: string
  FN_DOCUMENT :: string
  manifest :: string
  ws :: "dir option"
  job_document :: document

text \<open>
  Modelled from the spec: \<^verbatim>\<open>Job.init\<close> is not among the sources.  The spec has
  \<^verbatim>\<open>sync_jobs\<close> "ensure the destination job is materialized": afterwards the job is in
  its project and has its workspace directory with its manifest file.
\<close>

definition job_init :: "nat \<Rightarrow> job \<Rightarrow> job" where
  "job_init now j =
     j\<lparr>in_project := True,
       ws := Some (case ws j of
                     None \<Rightarrow> [(FN_MANIFEST j, File (manifest j) now)]
                   | Some d \<Rightarrow>
                       (case map_of d (FN_MANIFEST j) of
                          None \<Rightarrow> d @ [(FN_MANIFEST j, File (manifest j) now)]
                        | Some f \<Rightarrow> d))\<rparr>"

definition the_ws :: "job \<Rightarrow> dir" where
  "the_ws j = (case ws j of None \<Rightarrow> [] | Some d \<Rightarrow> d)"

text \<open>
  \<^verbatim>\<open>sync_jobs(src, dst, strategy, exclude, doc_sync, dry_run, deep)\<close>.  \<open>exclude\<close> is
  the list of patterns (the source turns \<^verbatim>\<open>None\<close> into the empty list and a single
  pattern into a list of one).  \<open>doc_sync\<close> is \<open>None\<close> or a synchronization function;
  \<open>sk\<close> is the \<^verbatim>\<open>skipped_keys\<close> of the \<^verbatim>\<open>ByKey\<close> instance passed in, and the
  default \<^verbatim>\<open>DocSync.ByKey()\<close> starts with none.  \<open>now\<close> is the time of the call.
  The result is the exception raised, if any, the destination job and the skipped keys
  of the instance used.
\<close>

definition sync_jobs ::
  "matcher \<Rightarrow> job \<Rightarrow> job \<Rightarrow> file_strategy option \<Rightarrow> string list \<Rightarrow> doc_sync option
     \<Rightarrow> string set \<Rightarrow> bool \<Rightarrow> nat \<Rightarrow> bool \<Rightarrow> error option \<times> job \<times> string set" where
  "sync_jobs re_match src dst strategy exclude doc_sync sk dry_run now deep =
     (if workspace_path src = workspace_path dst then (Some ValueError, dst, sk)
      else if FN_MANIFEST src \<noteq> FN_MANIFEST dst then (Some AssertionError, dst, sk)
      else if FN_DOCUMENT src \<noteq> FN_DOCUMENT dst then (Some AssertionError, dst, sk)
      else if in_project src = False then (None, dst, sk)
      else
        let (ds, sk0) = (case doc_sync of None \<Rightarrow> (ByKey None, {}) | Some f \<Rightarrow> (f, sk));
            exclude1 = exclude @ [FN_MANIFEST src];
            exclude2 = exclude1 @ [FN_DOCUMENT src];
            (e1, dst1) =
              (case ws src of
                 None \<Rightarrow> (None, dst)
               | Some s \<Rightarrow>
                   (case sync_job_workspaces re_match strategy exclude2 dry_run now deep []
                           s (the_ws (job_init now dst)) of
                      (e, d') \<Rightarrow> (e, (job_init now dst)\<lparr>ws := Some d'\<rparr>)))
        in (case e1 of
              Some e \<Rightarrow> (Some e, dst1, sk0)
            | None \<Rightarrow>
                (case ds of
                   NO_SYNC \<Rightarrow> (None, dst1, sk0)
                 | _ \<Rightarrow>
                     (case create_doc_backup dry_run (job_document dst1)
                             (doc_sync_call ds (doc_contents (job_document src))) sk0 of
                        (e, doc', sk') \<Rightarrow> (e, dst1\<lparr>job_document := doc'\<rparr>, sk')))))"

section \<open>\<^verbatim>\<open>sync_projects\<close>\<close>










section \<open>Example inputs\<close>

text \<open>The documents \<^verbatim>\<open>{"a":1,"b":{"c":2}}\<close> and \<^verbatim>\<open>{"a":1,"b":{"c":3}}\<close>.\<close>

definition src_doc :: dict where
  "src_doc = [(''a'', VInt 1), (''b'', VDict [(''c'', VInt 2)])]"

definition dst_doc :: dict where
  "dst_doc = [(''a'', VInt 1), (''b'', VDict [(''c'', VInt 3)])]"

text \<open>A plain \<^verbatim>\<open>dict\<close>, and a document that lives in a file.\<close>

definition plain_doc :: "dict \<Rightarrow> document" where
  "plain_doc d = \<lparr>filename = None, data = d, disk = Map.empty\<rparr>"

definition file_doc :: "string \<Rightarrow> dict \<Rightarrow> document" where
  "file_doc fn d = \<lparr>filename = Some fn, data = d, disk = [fn \<mapsto> d]\<rparr>"

text \<open>
  The conflict first and a new key after it: \<^verbatim>\<open>{"b":{"c":2},"n":7}\<close>.
\<close>

definition src_doc_n :: dict where
  "src_doc_n = [(''b'', VDict [(''c'', VInt 2)]), (''n'', VInt 7)]"

text \<open>Three levels: \<^verbatim>\<open>{"x":{"y":{"z":1}}}\<close> and \<^verbatim>\<open>{"x":{"y":{"z":2}}}\<close>.\<close>

definition src_xyz :: dict where
  "src_xyz = [(''x'', VDict [(''y'', VDict [(''z'', VInt 1)])])]"

definition dst_xyz :: dict where
  "dst_xyz = [(''x'', VDict [(''y'', VDict [(''z'', VInt 2)])])]"

text \<open>A source mapping over a destination scalar: \<^verbatim>\<open>{"a":{"x":1}}\<close> and \<^verbatim>\<open>{"a":5}\<close>.\<close>

definition src_shape :: dict where
  "src_shape = [(''a'', VDict [(''x'', VInt 1)])]"

definition dst_shape :: dict where
  "dst_shape = [(''a'', VInt 5)]"

text \<open>A nested key that only the source has: \<^verbatim>\<open>{"b":{"c":2}}\<close> and \<^verbatim>\<open>{"b":{}}\<close>.\<close>

definition src_nested :: dict where
  "src_nested = [(''b'', VDict [(''c'', VInt 2)])]"

definition dst_nested :: dict where
  "dst_nested = [(''b'', VDict [])]"

text \<open>A job with its manifest file, the given other entries and the given document.\<close>

definition example_job :: "string \<Rightarrow> string \<Rightarrow> dir \<Rightarrow> document \<Rightarrow> job" where
  "example_job i root entries doc =
     \<lparr>job_id = i, workspace_path = root @ ''/workspace/'' @ i, in_project = True,
      FN_MANIFEST = ''signac_statepoint.json'', FN_DOCUMENT = ''signac_job_document.json'',
      manifest = ''{}'',
      ws = Some ((''signac_statepoint.json'', File ''{}'' 1) # entries),
      job_document = doc\<rparr>"

text \<open>
  A subdirectory \<^verbatim>\<open>skip\<close> in both workspaces, with a file \<^verbatim>\<open>a.txt\<close> that differs.
\<close>

definition src_excl :: dir where
  "src_excl = [(''skip'', Dir [(''a.txt'', File ''new'' 2)])]"

definition dst_excl :: dir where
  "dst_excl = [(''skip'', Dir [(''a.txt'', File ''old'' 1)])]"

text \<open>
  A file \<^verbatim>\<open>new.txt\<close> that only the source has, and a file \<^verbatim>\<open>sub/data.txt\<close> that
  differs.
\<close>

definition src_sub :: dir where
  "src_sub = [(''new.txt'', File ''n'' 1), (''sub'', Dir [(''data.txt'', File ''src'' 2)])]"

definition dst_sub :: dir where
  "dst_sub = [(''sub'', Dir [(''data.txt'', File ''dst'' 1)])]"

text \<open>The two patterns that \<^verbatim>\<open>sync_jobs\<close> always adds to \<^verbatim>\<open>exclude\<close>.\<close>

definition job_files :: "string list" where
  "job_files = [''signac_statepoint.json'', ''signac_job_document.json'']"




section \<open>Well-formed inputs\<close>

text \<open>
  A Python mapping has each key once, and a directory has each name once.  A job on
  disk has its manifest file in its workspace, and after a clean run no backup of its
  document file is left.
\<close>

fun wf_val :: "val \<Rightarrow> bool" where
  "wf_val (VDict xs) = (distinct (map fst xs) \<and> list_all (\<lambda>kv. wf_val (snd kv)) xs)"
| "wf_val v = True"


definition wf_document :: "document \<Rightarrow> bool" where
  "wf_document doc =
     (wf_val (VDict (doc_contents doc)) \<and>
      (case filename doc of None \<Rightarrow> True | Some fn \<Rightarrow> disk doc (fn @ ''~'') = None))"




section \<open>Properties of the key-by-key traversal\<close>

text \<open>
  What every run of the loop keeps: it raises nothing but \<^verbatim>\<open>TypeError\<close>, it only adds
  to the skipped keys, and a mapping stays a mapping.
\<close>

definition loop_ok :: "val \<Rightarrow> string set \<Rightarrow> doc_result \<Rightarrow> bool" where
  "loop_ok dst sk r =
     ((fst r = None \<or> fst r = Some TypeError) \<and> sk \<subseteq> snd (snd r) \<and>
      ((\<exists>d. dst = VDict d) \<longrightarrow> (\<exists>d'. fst (snd r) = VDict d')))"

lemma by_key_finish_nonroot: "root \<noteq> [] \<Longrightarrow> by_key_finish ks root r = r"
  by (cases r; cases "fst r") (auto simp: by_key_finish_def)

lemma loop_ok_trans:
  "loop_ok (VDict d1) sk1 r \<Longrightarrow> sk \<subseteq> sk1 \<Longrightarrow> loop_ok (VDict d) sk r"
  by (auto simp: loop_ok_def)

lemma by_key_loop_ok: "loop_ok dst sk (by_key_loop ks dry root src dst sk)"
proof (induction ks dry root src dst sk rule: by_key_loop.induct)
  case (1 ks dry root dst sk)
  show ?case by (simp add: loop_ok_def)
next
  case (2 ks dry root key v rest dst sk)
  show ?case
  proof (cases dst)
    case (VDict d)
    note D = this
    show ?thesis
    proof (cases "map_of d key")
      case None
      from "2.IH"(1)[OF D None] show ?thesis
        using D None by (simp add: loop_ok_trans[OF _ subset_refl])
    next
      case (Some dv)
      note S = this
      show ?thesis
      proof (cases "py_eq dv v")
        case True
        from "2.IH"(2)[OF D S True] show ?thesis using D S True by simp
      next
        case False
        note F = this
        show ?thesis
        proof (cases "isinstance_Mapping v")
          case True
          note V = this
          define r1 where "r1 = (if py_eq v dv then (None, dv, sk)
                             else by_key_finish ks (key @ ''.'')
                                    (by_key_loop ks False (key @ ''.'') (items v) dv sk))"
          obtain e1 dv1 sk1 where R1: "r1 = (e1, dv1, sk1)" by (cases r1) auto
          have ok1: "loop_ok dv sk r1"
          proof (cases "py_eq v dv")
            case True
            then show ?thesis by (simp add: r1_def loop_ok_def)
          next
            case False
            from "2.IH"(3)[OF D S F V False] show ?thesis
              using False by (simp add: r1_def by_key_finish_nonroot)
          qed
          have sub1: "sk \<subseteq> sk1" using ok1 R1 by (simp add: loop_ok_def)
          have res: "by_key_loop ks dry root ((key, v) # rest) dst sk =
                (case e1 of Some e \<Rightarrow> (Some e, VDict (dict_set d key dv1), sk1)
                 | None \<Rightarrow> by_key_loop ks dry root rest (VDict (dict_set d key dv1)) sk1)"
            using D S F V R1 unfolding r1_def by (simp split: option.splits)
          show ?thesis
          proof (cases e1)
            case None
            have "loop_ok (VDict (dict_set d key dv1)) sk1
                    (by_key_loop ks dry root rest (VDict (dict_set d key dv1)) sk1)"
              using "2.IH"(4)[OF D S F V] R1 None unfolding r1_def by fastforce
            then show ?thesis using res None D sub1 by (simp add: loop_ok_trans)
          next
            case (Some e)
            then show ?thesis using res ok1 R1 D by (auto simp: loop_ok_def)
          qed
        next
          case NV: False
          show ?thesis
          proof (cases ks)
            case None
            have "loop_ok dst (insert (root @ key) sk)
                    (by_key_loop ks dry root rest dst (insert (root @ key) sk))"
              using "2.IH"(5)[OF D S F NV None] .
            then show ?thesis using D S F NV None
              by (auto simp: loop_ok_def)
          next
            case (Some f)
            show ?thesis
            proof (cases "f (root @ key)")
              case True
              have "loop_ok (VDict (DocProxy_setitem dry d key v)) sk
                    (by_key_loop ks dry root rest (VDict (DocProxy_setitem dry d key v)) sk)"
                using "2.IH"(6)[OF D S F NV Some True] .
              then show ?thesis using D S F NV Some True
                by (auto simp: loop_ok_def)
            next
              case False
              have "loop_ok dst (insert (root @ key) sk)
                    (by_key_loop ks dry root rest dst (insert (root @ key) sk))"
                using "2.IH"(7)[OF D S F NV Some False] .
              then show ?thesis using D S F NV Some False
                by (auto simp: loop_ok_def)
            qed
          qed
        qed
      qed
    qed
  qed (simp_all add: loop_ok_def)
qed


lemma by_key_loop_error:
  "fst (by_key_loop ks dry root src dst sk) = None \<or>
   fst (by_key_loop ks dry root src dst sk) = Some TypeError"
  using by_key_loop_ok [of dst sk ks dry root src] by (simp add: loop_ok_def)

lemma by_key_loop_mono: "sk \<subseteq> snd (snd (by_key_loop ks dry root src dst sk))"
  using by_key_loop_ok [of dst sk ks dry root src] by (simp add: loop_ok_def)

lemma by_key_finish_mono: "snd (snd (by_key_finish ks root r)) = snd (snd r)"
  by (cases r; cases "fst r") (auto simp: by_key_finish_def split: option.splits)

lemma ByKey_call_mono: "sk \<subseteq> snd (snd (ByKey_call ks dry root src dst sk))"
  by (simp add: ByKey_call_def by_key_finish_mono by_key_loop_mono)



lemma by_key_loop_VDict:
  "\<exists>d'. fst (snd (by_key_loop ks dry root src (VDict d) sk)) = VDict d'"
  using by_key_loop_ok [of "VDict d" sk ks dry root src] by (simp add: loop_ok_def)



lemma skipped_keys_carried_over:
  assumes "sk \<noteq> {}" and "\<not> py_eq src dst"
    and "ByKey_call None dry [] src dst sk = (e, dst', sk')"
  shows "sk \<subseteq> sk' \<and> (e = Some (DocumentSyncConflict sk') \<or> e = Some TypeError)"
proof -
  obtain e1 d1 sk1 where L: "by_key_loop None dry [] (items src) dst sk = (e1, d1, sk1)"
    by (cases "by_key_loop None dry [] (items src) dst sk") auto
  have m: "sk \<subseteq> sk1" using by_key_loop_mono [of sk None dry "[]" "items src" dst] L by simp
  have er: "e1 = None \<or> e1 = Some TypeError"
    using by_key_loop_error [of None dry "[]" "items src" dst sk] L by simp
  have ne: "sk1 \<noteq> {}" using m assms(1) by auto
  have fin: "by_key_finish None [] (e1, d1, sk1) =
     (case e1 of None \<Rightarrow> (Some (DocumentSyncConflict sk1), d1, sk1) | Some x \<Rightarrow> (Some x, d1, sk1))"
    using ne by (simp add: by_key_finish_def split: option.splits)
  have "(e, dst', sk') = by_key_finish None [] (e1, d1, sk1)"
    using assms(2,3) L by (simp add: ByKey_call_def)
  then show ?thesis using er m unfolding fin by auto
qed

section \<open>Evaluations on the example documents\<close>

lemma ByKey_conflict_example:
  "ByKey_call None False [] (VDict src_doc) (VDict dst_doc) {} =
     (Some (DocumentSyncConflict {''b.c''}), VDict dst_doc, {''b.c''})"
  by (simp add: ByKey_call_def src_doc_def dst_doc_def by_key_finish_def items_def
        isinstance_Mapping_def)


lemma backup_plain_conflict_example:
  "create_doc_backup False (plain_doc dst_doc) (doc_sync_call (ByKey None) src_doc) {} =
     (Some (DocumentSyncConflict {''b.c''}), plain_doc dst_doc, {''b.c''})"
  by (simp add: create_doc_backup_def in_memory_backup_def plain_doc_def doc_contents_def
        doc_sync_call_def ByKey_conflict_example items_def doc_store_def DocProxy_clear_def)
     (simp add: dst_doc_def DocProxy_setitem_def)

lemma backup_file_conflict_example:
  "create_doc_backup False (file_doc fn dst_doc) (doc_sync_call (ByKey None) src_doc) {} =
     (Some (DocumentSyncConflict {''b.c''}), file_doc fn dst_doc, {''b.c''})"
  apply (simp add: create_doc_backup_def in_memory_backup_def file_doc_def doc_contents_def
        doc_sync_call_def ByKey_conflict_example items_def doc_store_def isfile_def
        create_backup_def proxy_copy_def proxy_remove_def)
  apply (simp add: dst_doc_def fun_upd_twist)
  done

lemma walk_manifest_only:
  "sync_job_workspaces literal_match st (ex @ job_files) dry now deep []
      [(''signac_statepoint.json'', File ''{}'' 1)] [(''signac_statepoint.json'', File ''{}'' 1)]
    = (None, [(''signac_statepoint.json'', File ''{}'' 1)])"
  by (simp add: left_only_def listing_def DEFAULT_IGNORES_def diff_files_def
     common_files_def common_def common_dirs_def isdir_in_def isfile_in_def differs_def)

lemma sync_jobs_conflict_example:
  "sync_jobs literal_match
      (example_job ''j'' ''/src'' [] (file_doc ''signac_job_document.json'' src_doc))
      (example_job ''j'' ''/dst'' [] (file_doc ''signac_job_document.json'' dst_doc))
      None [] None {} False now False
   = (Some (DocumentSyncConflict {''b.c''}),
      example_job ''j'' ''/dst'' [] (file_doc ''signac_job_document.json'' dst_doc), {''b.c''})"
  apply (simp add: sync_jobs_def example_job_def job_init_def the_ws_def
       walk_manifest_only [of _ "[]", unfolded job_files_def, simplified])
  apply (simp add: backup_file_conflict_example
           [unfolded file_doc_def doc_contents_def, simplified] file_doc_def doc_contents_def)
  done

lemma backup_conflict_after_write_example:
  "ByKey_call None False [] (VDict src_doc_n) (VDict dst_doc) {} =
     (Some (DocumentSyncConflict {''b.c''}), VDict (dst_doc @ [(''n'', VInt 7)]), {''b.c''})
   \<and> create_doc_backup False (plain_doc dst_doc) (doc_sync_call (ByKey None) src_doc_n) {} =
     (Some (DocumentSyncConflict {''b.c''}), plain_doc dst_doc, {''b.c''})"
  by (simp add: create_doc_backup_def in_memory_backup_def plain_doc_def doc_contents_def
        doc_sync_call_def items_def doc_store_def DocProxy_clear_def ByKey_call_def
        src_doc_n_def dst_doc_def isinstance_Mapping_def by_key_finish_def DocProxy_setitem_def)

section \<open>The roll-back of the document backup\<close>

lemma doc_contents_doc_store: "doc_contents (doc_store doc d) = d"
  by (auto simp: doc_store_def doc_contents_def split: option.splits)

lemma dict_set_fresh: "k \<notin> fst ` set d \<Longrightarrow> dict_set d k v = d @ [(k, v)]"
  by (induction d) auto

lemma DocProxy_update_rebuild:
  "distinct (map fst (acc @ b)) \<Longrightarrow> DocProxy_update False acc b = acc @ b"
proof (induction b arbitrary: acc)
  case Nil
  then show ?case by simp
next
  case (Cons kv b)
  obtain k v where kv: "kv = (k, v)" by (cases kv) auto
  have fresh: "k \<notin> fst ` set acc" using Cons.prems kv by auto
  have d: "distinct (map fst ((acc @ [(k, v)]) @ b))" using Cons.prems kv by simp
  show ?case
    using Cons.IH [OF d] kv fresh by (simp add: DocProxy_setitem_def dict_set_fresh)
qed

lemma create_doc_backup_rolls_back:
  assumes wf: "wf_document doc"
    and r: "create_doc_backup False doc region a = (Some e, doc', a')"
  shows "doc_contents doc' = doc_contents doc"
proof (cases "in_memory_backup doc")
  case True
  have d: "distinct (map fst (doc_contents doc))" using wf by (simp add: wf_document_def)
  obtain e0 d0 a0 where R: "region False (doc_contents doc) a = (e0, d0, a0)"
    by (cases "region False (doc_contents doc) a") auto
  have "doc_contents doc' = DocProxy_update False [] (doc_contents doc)"
    using r True R
    by (cases e0) (auto simp: create_doc_backup_def doc_contents_doc_store DocProxy_clear_def)
  then show ?thesis using DocProxy_update_rebuild [of "[]" "doc_contents doc"] d by simp
next
  case False
  then obtain fn c where fn: "filename doc = Some fn" and c: "disk doc fn = Some c"
    by (auto simp: in_memory_backup_def isfile_def split: if_splits option.splits)
  have dc: "doc_contents doc = c" using fn c by (simp add: doc_contents_def)
  have nb: "disk doc (fn @ ''~'') = None" using wf fn by (simp add: wf_document_def)
  obtain e0 d0 a0 where R: "region False c a = (e0, d0, a0)"
    by (cases "region False c a") auto
  have "disk doc' fn = Some c \<and> filename doc' = Some fn"
    using r False fn c nb R
    by (cases e0; cases "d0 = c")
       (auto simp: create_doc_backup_def create_backup_def isfile_def proxy_copy_def
          proxy_remove_def Let_def)
  then show ?thesis using dc by (simp add: doc_contents_def)
qed

section \<open>The claims about documents\<close>

text \<open>
  C2.  For \<^verbatim>\<open>src = {"a":1,"b":{"c":2}}\<close> and \<^verbatim>\<open>dst = {"a":1,"b":{"c":3}}\<close>,
  \<^verbatim>\<open>ByKey\<close> without a key strategy raises \<^verbatim>\<open>DocumentSyncConflict\<close> with exactly
  the key path \<^verbatim>\<open>b.c\<close>; under the document backup guard, and in \<^verbatim>\<open>sync_jobs\<close>
  which runs it under that guard, the destination document is afterwards what it was,
  for a plain mapping (backup in memory) and for a document in a file (backup file)
  alike.  The loop over the keys itself never raises the conflict: it is raised after
  the traversal, with all the keys collected.  And whatever the guarded region does to a
  well-formed document before it raises, in a run that is not a dry run the guard gives
  the document its contents back.
\<close>

theorem C2_conflict_and_rollback:
  "ByKey_call None False [] (VDict src_doc) (VDict dst_doc) {} =
     (Some (DocumentSyncConflict {''b.c''}), VDict dst_doc, {''b.c''})
   \<and> create_doc_backup False (plain_doc dst_doc) (doc_sync_call (ByKey None) src_doc) {} =
     (Some (DocumentSyncConflict {''b.c''}), plain_doc dst_doc, {''b.c''})
   \<and> create_doc_backup False (file_doc fn dst_doc) (doc_sync_call (ByKey None) src_doc) {} =
     (Some (DocumentSyncConflict {''b.c''}), file_doc fn dst_doc, {''b.c''})
   \<and> doc_contents (file_doc fn dst_doc) = [(''a'', VInt 1), (''b'', VDict [(''c'', VInt 3)])]
   \<and> sync_jobs literal_match
        (example_job ''j'' ''/src'' [] (file_doc ''signac_job_document.json'' src_doc))
        (example_job ''j'' ''/dst'' [] (file_doc ''signac_job_document.json'' dst_doc))
        None [] None {} False now False
      = (Some (DocumentSyncConflict {''b.c''}),
         example_job ''j'' ''/dst'' [] (file_doc ''signac_job_document.json'' dst_doc),
         {''b.c''})
   \<and> fst (by_key_loop ks dry root src dst sk) \<noteq> Some (DocumentSyncConflict s)
   \<and> (wf_document doc \<and> create_doc_backup False doc region a = (Some e, doc', a')
      \<longrightarrow> doc_contents doc' = doc_contents doc)"
proof -
  have "fst (by_key_loop ks dry root src dst sk) \<noteq> Some (DocumentSyncConflict s)"
    using by_key_loop_error [of ks dry root src dst sk] by auto
  moreover have "doc_contents (file_doc fn dst_doc) =
      [(''a'', VInt 1), (''b'', VDict [(''c'', VInt 3)])]"
    by (simp add: doc_contents_def file_doc_def dst_doc_def)
  ultimately show ?thesis
    using ByKey_conflict_example backup_plain_conflict_example
          backup_file_conflict_example [of fn] sync_jobs_conflict_example [of now]
          create_doc_backup_rolls_back [of doc region a e doc' a']
    by simp
qed

theorem C2_conflict_and_rollback_witness:
  "wf_document (plain_doc dst_doc)
   \<and> fst (snd (ByKey_call None False [] (VDict src_doc_n) (VDict dst_doc) {})) =
       VDict (dst_doc @ [(''n'', VInt 7)])
   \<and> create_doc_backup False (plain_doc dst_doc) (doc_sync_call (ByKey None) src_doc_n) {} =
       (Some (DocumentSyncConflict {''b.c''}), plain_doc dst_doc, {''b.c''})
   \<and> doc_contents (plain_doc dst_doc) = dst_doc"
proof -
  have wf: "wf_document (plain_doc dst_doc)"
    by (simp add: wf_document_def plain_doc_def doc_contents_def dst_doc_def)
  have c: "doc_contents (plain_doc dst_doc) = dst_doc"
    by (simp add: plain_doc_def doc_contents_def)
  note t = C2_conflict_and_rollback [where doc = "plain_doc dst_doc"
      and region = "doc_sync_call (ByKey None) src_doc_n" and a = "{}"
      and e = "DocumentSyncConflict {''b.c''}" and doc' = "plain_doc dst_doc"
      and a' = "{''b.c''}"]
  show ?thesis using t wf c backup_conflict_after_write_example by simp
qed

text \<open>
  C4.  A conflict three levels down, at \<^verbatim>\<open>src["x"]["y"]["z"]\<close>: the claim has it
  recorded as \<^verbatim>\<open>x.y.z\<close>.  The recursive call passes \<^verbatim>\<open>key + '.'\<close> and not
  \<^verbatim>\<open>root + key + '.'\<close>, so the code records \<^verbatim>\<open>y.z\<close>.
\<close>

theorem C4_nested_key_path_loses_root:
  "ByKey_call None False [] (VDict src_xyz) (VDict dst_xyz) {} =
     (Some (DocumentSyncConflict {''y.z''}), VDict dst_xyz, {''y.z''})"
  by (simp add: ByKey_call_def src_xyz_def dst_xyz_def by_key_finish_def items_def
        isinstance_Mapping_def)



text \<open>
  C9.  The skipped keys of a \<^verbatim>\<open>ByKey\<close> instance are never reset, and the claim is that
  once an instance without a key strategy has recorded a key-path, every later top-level
  call of it on two documents that are not equal raises \<^verbatim>\<open>DocumentSyncConflict\<close>
  carrying the key-paths recorded before.  The first call below, on \<^verbatim>\<open>{"a":1,"b":{"c":2}}\<close>
  and \<^verbatim>\<open>{"a":1,"b":{"c":3}}\<close>, records \<^verbatim>\<open>b.c\<close>.  The second call, of the same
  instance, is on \<^verbatim>\<open>{"a":{"x":1}}\<close> and \<^verbatim>\<open>{"a":5}\<close>, which are not equal: the source
  value under \<^verbatim>\<open>a\<close> is a mapping, the destination value is not, \<^verbatim>\<open>isinstance\<close> is
  tested on the source value only, and the recursive call fails on \<^verbatim>\<open>key in dst\<close>.  The
  exception of the second call is \<^verbatim>\<open>TypeError\<close>, not \<^verbatim>\<open>DocumentSyncConflict\<close>, and the
  key-path recorded before is not reported.
\<close>

theorem C9_type_error_instead_of_conflict:
  "snd (snd (ByKey_call None False [] (VDict src_doc) (VDict dst_doc) {})) = {''b.c''}
   \<and> \<not> py_eq (VDict src_shape) (VDict dst_shape)
   \<and> ByKey_call None False [] (VDict src_shape) (VDict dst_shape) {''b.c''}
       = (Some TypeError, VDict dst_shape, {''b.c''})
   \<and> Some TypeError \<noteq> Some (DocumentSyncConflict {''b.c''})"
  by (simp add: ByKey_call_def src_doc_def dst_doc_def src_shape_def dst_shape_def
        by_key_finish_def items_def isinstance_Mapping_def)

section \<open>The scoped file backup\<close>

lemma create_backup_stale:
  "isfile files (path @ ''~'') \<Longrightarrow>
   create_backup dry path region (files, a) = (Some RuntimeError, files, a)"
  by (simp add: create_backup_def)

lemma create_backup_restores:
  assumes "\<not> isfile files (path @ ''~'')" and "files path = Some c"
    and "region (files(path @ ''~'' \<mapsto> c), a) = (Some e, files2, a2)"
    and "files2 (path @ ''~'') = Some c'"
  shows "create_backup False path region (files, a) =
           (Some e, files2(path \<mapsto> c', path @ ''~'' := None), a2)"
  using assms by (simp add: create_backup_def proxy_copy_def proxy_remove_def)

lemma create_backup_success:
  assumes "\<not> isfile files (path @ ''~'')" and "files path = Some c"
    and "region (files(path @ ''~'' \<mapsto> c), a) = (None, files2, a2)"
    and "files2 (path @ ''~'') = Some c'"
  shows "create_backup False path region (files, a) =
           (None, files2(path @ ''~'' := None), a2)"
  using assms by (simp add: create_backup_def proxy_copy_def proxy_remove_def)

lemma create_backup_removes:
  assumes "\<not> isfile files (path @ ''~'')"
  shows "fst (snd (create_backup False path region (files, a))) (path @ ''~'') = None"
proof (cases "files path")
  case None
  then show ?thesis using assms
    by (simp add: create_backup_def proxy_copy_def proxy_remove_def isfile_def
          split: option.splits)
next
  case (Some c)
  obtain e2 files2 a2 where R: "region (files(path @ ''~'' \<mapsto> c), a) = (e2, files2, a2)"
    by (cases "region (files(path @ ''~'' \<mapsto> c), a)") auto
  show ?thesis
    using assms Some R
    by (cases e2; cases "files2 (path @ ''~'')")
       (simp_all add: create_backup_def proxy_copy_def proxy_remove_def)
qed

lemma create_backup_dry_run:
  assumes "\<not> isfile files (path @ ''~'')"
  shows "create_backup True path region (files, a) = region (files, a)"
proof -
  obtain e2 files2 a2 where R: "region (files, a) = (e2, files2, a2)"
    by (cases "region (files, a)") auto
  show ?thesis
    using assms R
    by (cases e2) (simp_all add: create_backup_def proxy_copy_def proxy_remove_def)
qed

text \<open>
  C7.  The contract of \<^verbatim>\<open>create_backup\<close>, as the code keeps it.  (1) When a file with
  the backup suffix is there already, the call raises \<^verbatim>\<open>RuntimeError\<close>, in a dry run or
  not; the guarded region does not run and no file changes.  (2) In a run that is not a
  dry run, on a target that exists: when the region raises and has left the duplicate in
  place, the target gets the contents of the duplicate, the duplicate is gone and the
  region's exception is the one that propagates.  (3) In a run that is not a dry run,
  when the call has started, no file with the backup suffix is left at the exit, whether
  the region returns or raises; after a region that returns, the other files are as the
  region left them.  In a dry run the proxy makes no duplicate, restores nothing and
  removes nothing: the call is the region alone.
\<close>

theorem C7_create_backup_contract:
  "(isfile files (path @ ''~'') \<longrightarrow>
      create_backup dry path region (files, a) = (Some RuntimeError, files, a))
   \<and> (\<not> isfile files (path @ ''~'') \<and> files path = Some c
       \<and> region (files(path @ ''~'' \<mapsto> c), a) = (Some e, files_r, a_r)
       \<and> files_r (path @ ''~'') = Some c'
      \<longrightarrow> create_backup False path region (files, a) =
            (Some e, files_r(path \<mapsto> c', path @ ''~'' := None), a_r))
   \<and> (\<not> isfile files (path @ ''~'') \<and> files path = Some c
       \<and> region (files(path @ ''~'' \<mapsto> c), a) = (None, files_s, a_s)
       \<and> files_s (path @ ''~'') = Some c''
      \<longrightarrow> create_backup False path region (files, a) =
            (None, files_s(path @ ''~'' := None), a_s))
   \<and> (\<not> isfile files (path @ ''~'') \<longrightarrow>
      fst (snd (create_backup False path region (files, a))) (path @ ''~'') = None)
   \<and> (\<not> isfile files (path @ ''~'') \<longrightarrow>
      create_backup True path region (files, a) = region (files, a))"
  using create_backup_stale [of files path dry region a]
        create_backup_restores [of files path c region a e files_r a_r c']
        create_backup_success [of files path c region a files_s a_s c'']
        create_backup_removes [of files path region a]
        create_backup_dry_run [of files path region a]
  by blast

theorem C7_create_backup_contract_witness:
  "isfile [''f~'' \<mapsto> ''stale''] (''f'' @ ''~'')
   \<and> create_backup False ''f'' (\<lambda>(fs, u). (Some ValueError, fs(''f'' \<mapsto> ''new''), u))
        ([''f~'' \<mapsto> ''stale''], ()) = (Some RuntimeError, [''f~'' \<mapsto> ''stale''], ())
   \<and> \<not> isfile [''f'' \<mapsto> ''old''] (''f'' @ ''~'') \<and> [''f'' \<mapsto> ''old''] ''f'' = Some ''old''
   \<and> (\<lambda>(fs, u). (Some ValueError, fs(''f'' \<mapsto> ''new''), u))
        ([''f'' \<mapsto> ''old'', ''f'' @ ''~'' \<mapsto> ''old''], ())
       = (Some ValueError, [''f'' \<mapsto> ''new'', ''f~'' \<mapsto> ''old''], ())
   \<and> [''f'' \<mapsto> ''new'', ''f~'' \<mapsto> ''old''] (''f'' @ ''~'') = Some ''old''
   \<and> create_backup False ''f'' (\<lambda>(fs, u). (Some ValueError, fs(''f'' \<mapsto> ''new''), u))
        ([''f'' \<mapsto> ''old''], ())
       = (Some ValueError,
          [''f'' \<mapsto> ''new'', ''f~'' \<mapsto> ''old''](''f'' \<mapsto> ''old'', ''f'' @ ''~'' := None), ())
   \<and> ([''f'' \<mapsto> ''new'', ''f~'' \<mapsto> ''old''](''f'' \<mapsto> ''old'', ''f'' @ ''~'' := None)) ''f''
       = Some ''old''
   \<and> fst (snd (create_backup False ''f''
          (\<lambda>(fs, u). (Some ValueError, fs(''f'' \<mapsto> ''new''), u)) ([''f'' \<mapsto> ''old''], ())))
        (''f'' @ ''~'') = None"
proof -
  let ?region = "\<lambda>(fs :: string fs, u :: unit). (Some ValueError, fs(''f'' \<mapsto> ''new''), u)"
  have stale: "isfile [''f~'' \<mapsto> ''stale''] (''f'' @ ''~'')" by (simp add: isfile_def)
  have fresh: "\<not> isfile [''f'' \<mapsto> ''old''] (''f'' @ ''~'')" by (simp add: isfile_def)
  have target: "[''f'' \<mapsto> ''old''] ''f'' = Some ''old''" by simp
  have run: "?region ([''f'' \<mapsto> ''old'', ''f'' @ ''~'' \<mapsto> ''old''], ())
       = (Some ValueError, [''f'' \<mapsto> ''new'', ''f~'' \<mapsto> ''old''], ())"
    by (simp add: fun_upd_twist)
  have dup: "[''f'' \<mapsto> ''new'', ''f~'' \<mapsto> ''old''] (''f'' @ ''~'') = Some ''old''" by simp
  note a = C7_create_backup_contract [where files = "[''f~'' \<mapsto> ''stale'']" and path = "''f''"
            and dry = False and region = ?region and a = "()"]
  note b = C7_create_backup_contract [where files = "[''f'' \<mapsto> ''old'']" and path = "''f''"
            and region = ?region and a = "()" and c = "''old''" and e = ValueError
            and files_r = "[''f'' \<mapsto> ''new'', ''f~'' \<mapsto> ''old'']" and a_r = "()"
            and c' = "''old''"]
  show ?thesis using a b stale fresh target run dup by simp
qed

text \<open>
  The claim C7 as it is written promises the restoration for every guarded region that
  raises.  In a dry run the proxy's \<^verbatim>\<open>copy\<close> does nothing: no duplicate is made, and when
  the region has changed the target and raises, the target is left as the region wrote
  it.  The target \<^verbatim>\<open>f\<close> holds \<^verbatim>\<open>old\<close> before the call and \<^verbatim>\<open>new\<close> after it.
\<close>

theorem C7_counterexample:
  "create_backup True ''f'' (\<lambda>(fs, u). (Some ValueError, fs(''f'' \<mapsto> ''new''), u))
        ([''f'' \<mapsto> ''old''], ())
     = (Some ValueError, [''f'' \<mapsto> ''new''], ())"
  by (simp add: create_backup_def proxy_copy_def proxy_remove_def isfile_def)

section \<open>The claims about the workspace walk\<close>

text \<open>
  C3.  The claim: the walk never enters a subdirectory whose name matches the exclude
  pattern, and no file below it is copied, given to the strategy or reported as a
  conflict.  The loop over \<^verbatim>\<open>diff.subdirs\<close> does not look at \<^verbatim>\<open>exclude\<close>: with
  the subdirectory \<^verbatim>\<open>skip\<close> in both workspaces and \<^verbatim>\<open>exclude = 'skip'\<close>, the file
  \<^verbatim>\<open>skip/a.txt\<close> raises \<^verbatim>\<open>FileSyncConflict\<close> without a strategy and is copied with
  the strategy \<^verbatim>\<open>always\<close>.  (When only the source has the subdirectory, the loop over
  \<^verbatim>\<open>left_only\<close> does skip it.)
\<close>

theorem C3_excluded_subdir_is_walked:
  "excluded literal_match (''skip'' # job_files) ''skip''
   \<and> sync_job_workspaces literal_match None (''skip'' # job_files) False now False []
        src_excl dst_excl
      = (Some (FileSyncConflict ''a.txt''), dst_excl)
   \<and> sync_job_workspaces literal_match (Some FileSync_always) (''skip'' # job_files) False now
        False [] src_excl dst_excl
      = (None, [(''skip'', Dir [(''a.txt'', File ''new'' now)])])
   \<and> sync_job_workspaces literal_match (Some FileSync_always) (''skip'' # job_files) False now
        False [] src_excl []
      = (None, [])"
  by (simp add: src_excl_def dst_excl_def job_files_def left_only_def listing_def
        DEFAULT_IGNORES_def diff_files_def common_files_def common_def common_dirs_def
        isdir_in_def isfile_in_def differs_def excluded_def literal_match_def path_join_def)

text \<open>
  C6.  Without a file strategy the first differing file that is not excluded raises
  \<^verbatim>\<open>FileSyncConflict\<close>, and what the walk has copied before stays copied: here
  \<^verbatim>\<open>new.txt\<close>, which only the source has.  The claim has the exception name the path
  with its subdirectory, \<^verbatim>\<open>sub/data.txt\<close>; the code raises
  \<^verbatim>\<open>FileSyncConflict(fn)\<close> with the bare name \<^verbatim>\<open>data.txt\<close>.
\<close>

theorem C6_conflict_names_bare_filename:
  "sync_job_workspaces literal_match None job_files False now False [] src_sub dst_sub
     = (Some (FileSyncConflict ''data.txt''),
        [(''sub'', Dir [(''data.txt'', File ''dst'' 1)]), (''new.txt'', File ''n'' now)])
   \<and> path_join ''sub'' ''data.txt'' = ''sub/data.txt''"
  by (simp add: src_sub_def dst_sub_def job_files_def left_only_def listing_def
        DEFAULT_IGNORES_def diff_files_def common_files_def common_def common_dirs_def
        isdir_in_def isfile_in_def differs_def excluded_def literal_match_def path_join_def)

section \<open>Dry runs\<close>

lemma dry_run_nested_write:
  "sync_jobs literal_match
      (example_job ''j'' ''/src'' [] (file_doc ''signac_job_document.json'' src_nested))
      (example_job ''j'' ''/dst'' [] (file_doc ''signac_job_document.json'' dst_nested))
      None [] None {} True now False
   = (None,
      example_job ''j'' ''/dst'' [] (file_doc ''signac_job_document.json'' dst_nested)
        \<lparr>job_document := \<lparr>filename = Some ''signac_job_document.json'', data = dst_nested,
             disk = [''signac_job_document.json'' \<mapsto> src_nested]\<rparr>\<rparr>, {})"
  apply (simp add: sync_jobs_def example_job_def job_init_def the_ws_def
       walk_manifest_only [of _ "[]", unfolded job_files_def, simplified])
  apply (simp add: create_doc_backup_def in_memory_backup_def file_doc_def doc_contents_def
        isfile_def create_backup_def proxy_copy_def proxy_remove_def doc_sync_call_def
        ByKey_call_def src_nested_def dst_nested_def items_def isinstance_Mapping_def
        by_key_finish_def DocProxy_setitem_def Let_def)
  done

lemma dry_run_rollback_clears:
  "create_doc_backup True (plain_doc dst_doc) (doc_sync_call (ByKey None) src_doc) {} =
     (Some (DocumentSyncConflict {''b.c''}), plain_doc [], {''b.c''})"
  by (simp add: create_doc_backup_def in_memory_backup_def plain_doc_def doc_contents_def
        doc_sync_call_def items_def doc_store_def DocProxy_clear_def ByKey_call_def
        src_doc_def dst_doc_def isinstance_Mapping_def by_key_finish_def DocProxy_setitem_def)

text \<open>
  C1.  The claim: a call with the dry-run flag leaves every destination file and
  document as it was.  Two runs with the flag set that do not.  \<^verbatim>\<open>sync_jobs\<close> on the
  documents \<^verbatim>\<open>{"b":{"c":2}}\<close> and \<^verbatim>\<open>{"b":{}}\<close>: the proxy hands out the nested
  mapping itself, the write \<^verbatim>\<open>dst['c'] = 2\<close> at the nested level is a real one, and the
  destination document is \<^verbatim>\<open>{"b":{"c":2}}\<close> afterwards.  The roll-back of the backup
  in memory, after a conflict on a plain mapping: \<^verbatim>\<open>clear\<close> does not test the flag,
  \<^verbatim>\<open>update\<close> does, and the destination document is empty afterwards.
\<close>

theorem C1_dry_run_changes_destination:
  "doc_contents (file_doc ''signac_job_document.json'' dst_nested) = [(''b'', VDict [])]
   \<and> fst (sync_jobs literal_match
        (example_job ''j'' ''/src'' [] (file_doc ''signac_job_document.json'' src_nested))
        (example_job ''j'' ''/dst'' [] (file_doc ''signac_job_document.json'' dst_nested))
        None [] None {} True now False) = None
   \<and> doc_contents (job_document (fst (snd (sync_jobs literal_match
        (example_job ''j'' ''/src'' [] (file_doc ''signac_job_document.json'' src_nested))
        (example_job ''j'' ''/dst'' [] (file_doc ''signac_job_document.json'' dst_nested))
        None [] None {} True now False))))
      = [(''b'', VDict [(''c'', VInt 2)])]
   \<and> doc_contents (plain_doc dst_doc) = [(''a'', VInt 1), (''b'', VDict [(''c'', VInt 3)])]
   \<and> create_doc_backup True (plain_doc dst_doc) (doc_sync_call (ByKey None) src_doc) {} =
       (Some (DocumentSyncConflict {''b.c''}), plain_doc [], {''b.c''})
   \<and> doc_contents (plain_doc []) = []"
  by (simp add: dry_run_nested_write dry_run_rollback_clears)
     (simp add: doc_contents_def file_doc_def plain_doc_def dst_nested_def src_nested_def
        dst_doc_def)

section \<open>Synchronizing a workspace or a document with an equal one\<close>















section \<open>Clone or synchronize\<close>
















end
